theory Spec2Isabelle
  imports Complex_Main
begin

section \<open>Numbers and the functions of Python's math module\<close>

text \<open>
  The player's numeric attributes hold Python ints and floats. Attributes that stay
  integers on every path (the jump speed, the strafe flags) are \<^typ>\<open>int\<close>; attributes
  that meet a float (the walking speed after a division, the velocity, the position and
  the rotation) are \<^typ>\<open>real\<close>, so a float is read as the real number it stands for and
  rounding is left out of the model. The functions of the \<^verbatim>\<open>math\<close> module are their
  mathematical counterparts.
\<close>

definition radians :: "real \<Rightarrow> real" where
  "radians d = d * pi / 180"

definition degrees :: "real \<Rightarrow> real" where
  "degrees r = r * 180 / pi"

text \<open>
  \<^verbatim>\<open>math.atan2(y, x)\<close>: the angle of the point \<open>(x, y)\<close>, in \<open>(-pi, pi]\<close>; the first
  argument is the ordinate. \<^verbatim>\<open>atan2(0, 0)\<close> is \<open>0\<close>.
\<close>

definition atan2 :: "real \<Rightarrow> real \<Rightarrow> real" where
  "atan2 y x =
     (if 0 < x then arctan (y / x)
      else if x < 0 then (if 0 \<le> y then arctan (y / x) + pi else arctan (y / x) - pi)
      else if 0 < y then pi / 2
      else if y < 0 then - (pi / 2)
      else 0)"

text \<open>\<^verbatim>\<open>int(x)\<close> on a float truncates towards zero.\<close>

definition py_int :: "real \<Rightarrow> int" where
  "py_int x = (if 0 \<le> x then \<lfloor>x\<rfloor> else \<lceil>x\<rceil>)"

text \<open>
  The builtins \<^verbatim>\<open>max(a, b)\<close> and \<^verbatim>\<open>min(a, b)\<close> keep the first argument unless the
  second is strictly greater (strictly smaller).
\<close>

definition py_max :: "real \<Rightarrow> real \<Rightarrow> real" where
  "py_max a b = (if b > a then b else a)"

definition py_min :: "real \<Rightarrow> real \<Rightarrow> real" where
  "py_min a b = (if b < a then b else a)"

section \<open>The Player\<close>

text \<open>
  Modelled from the spec: the block catalog (module \<^verbatim>\<open>block\<close>) is an external, ordered
  enumeration of placeable block kinds; the members declared here are the seven that
  \<^verbatim>\<open>Player.__init__\<close> names.
\<close>

datatype Block = BRICK | GRASS | SAND | TREE_TRUNK | TREE_LEAVES | LIGHT_CLOUD | DARK_CLOUD

text \<open>The attributes that \<^verbatim>\<open>__init__\<close> sets once and no method assigns.\<close>

definition MAX_JUMP_HEIGHT_IN_BLOCKS :: real where
  "MAX_JUMP_HEIGHT_IN_BLOCKS = 1.0"

definition PLAYER_HEIGHT_IN_BLOCKS :: int where
  "PLAYER_HEIGHT_IN_BLOCKS = 2"

definition MAX_FALL_SPEED_IN_BLOCKS_PER_SECOND :: real where
  "MAX_FALL_SPEED_IN_BLOCKS_PER_SECOND = 50"

definition FLYING_SPEED_IN_BLOCKS_PER_SECOND :: real where
  "FLYING_SPEED_IN_BLOCKS_PER_SECOND = 15"

definition GRAVITY_IN_BLOCKS_PER_SECOND_SQUARED :: real where
  "GRAVITY_IN_BLOCKS_PER_SECOND_SQUARED = 20.0"

definition MAX_SPEED_IN_BLOCKS_PER_SECOND :: real where
  "MAX_SPEED_IN_BLOCKS_PER_SECOND = 15"

definition MIN_SPEED_IN_BLOCKS_PER_SECOND :: real where
  "MIN_SPEED_IN_BLOCKS_PER_SECOND = 5"

definition INITIAL_JUMP_SPEED_IN_BLOCKS_PER_SECOND :: int where
  "INITIAL_JUMP_SPEED_IN_BLOCKS_PER_SECOND =
     py_int (sqrt (2 * GRAVITY_IN_BLOCKS_PER_SECOND_SQUARED * MAX_JUMP_HEIGHT_IN_BLOCKS))"

definition MAX_JUMP_SPEED_IN_BLOCKS_PER_SECOND :: int where
  "MAX_JUMP_SPEED_IN_BLOCKS_PER_SECOND = INITIAL_JUMP_SPEED_IN_BLOCKS_PER_SECOND + 10"

definition MIN_JUMP_SPEED_IN_BLOCKS_PER_SECOND :: int where
  "MIN_JUMP_SPEED_IN_BLOCKS_PER_SECOND = INITIAL_JUMP_SPEED_IN_BLOCKS_PER_SECOND"

definition WALK_SPEED_IN_BLOCKS_PER_SECOND :: real where
  "WALK_SPEED_IN_BLOCKS_PER_SECOND = 5"

text \<open>The attributes that the methods read and assign.\<close>

record player =
  jump_speed_in_blocks_per_second :: int
  walking_speed_in_blocks_per_second :: real
  flying :: bool
  ascend :: bool
  descend :: bool
  strafe_unit_vector :: "int \<times> int"
  position_in_blocks_from_origin :: "real \<times> real \<times> real"
  rotation_in_degrees :: "real \<times> real"
  vertical_velocity_in_blocks_per_second :: real
  inventory :: "Block list"
  selected_block :: Block

text \<open>\<^verbatim>\<open>Player.__init__\<close>: the state of a new player.\<close>

definition Player_init :: player where
  "Player_init =
     \<lparr> jump_speed_in_blocks_per_second = INITIAL_JUMP_SPEED_IN_BLOCKS_PER_SECOND,
       walking_speed_in_blocks_per_second = WALK_SPEED_IN_BLOCKS_PER_SECOND,
       flying = False,
       ascend = False,
       descend = False,
       strafe_unit_vector = (0, 0),
       position_in_blocks_from_origin = (0, 0, 0),
       rotation_in_degrees = (0, 0),
       vertical_velocity_in_blocks_per_second = 0,
       inventory = [BRICK, GRASS, SAND, TREE_TRUNK, TREE_LEAVES, LIGHT_CLOUD, DARK_CLOUD],
       selected_block = BRICK \<rparr>"

subsection \<open>Sight and motion vectors\<close>

definition get_sight_vector :: "player \<Rightarrow> real \<times> real \<times> real" where
  "get_sight_vector p =
     (let (x, y) = rotation_in_degrees p;
          m = cos (radians y);
          dy = sin (radians y);
          dx = cos (radians (x - 90)) * m;
          dz = sin (radians (x - 90)) * m
      in (dx, dy, dz))"

text \<open>
  \<^verbatim>\<open>math.atan2(*self.strafe_unit_vector)\<close> unpacks the two-element list in order: the
  first element is the first argument of \<^verbatim>\<open>atan2\<close>, the second element the second.
\<close>

definition get_motion_vector :: "player \<Rightarrow> real \<times> real \<times> real" where
  "get_motion_vector p =
     (let (s0, s1) = strafe_unit_vector p in
      if s0 \<noteq> 0 \<or> s1 \<noteq> 0 then
        (let (x, y) = rotation_in_degrees p;
             strafe = degrees (atan2 (real_of_int s0) (real_of_int s1));
             y_angle = radians y;
             x_angle = radians (x + strafe)
         in if flying p then
              (let m = cos y_angle;
                   dy = sin y_angle;
                   (dy, m) = (if s1 \<noteq> 0 then (0.0, 1) else (dy, m));
                   dy = (if s0 > 0 then dy * (- 1) else dy);
                   dx = cos x_angle * m;
                   dz = sin x_angle * m
               in (dx, dy, dz))
            else (cos x_angle, 0.0, sin x_angle))
      else (0.0, 0.0, 0.0))"

subsection \<open>Walking and jumping speed\<close>

definition increase_walk_speed :: "player \<Rightarrow> player" where
  "increase_walk_speed p =
     (if walking_speed_in_blocks_per_second p \<le> MAX_SPEED_IN_BLOCKS_PER_SECOND
      then p\<lparr>walking_speed_in_blocks_per_second :=
                walking_speed_in_blocks_per_second p + WALK_SPEED_IN_BLOCKS_PER_SECOND\<rparr>
      else p)"

definition decrease_walk_speed :: "player \<Rightarrow> player" where
  "decrease_walk_speed p =
     (if walking_speed_in_blocks_per_second p > MIN_SPEED_IN_BLOCKS_PER_SECOND
      then p\<lparr>walking_speed_in_blocks_per_second :=
                walking_speed_in_blocks_per_second p - WALK_SPEED_IN_BLOCKS_PER_SECOND\<rparr>
      else p)"

definition increase_jump_speed :: "player \<Rightarrow> player" where
  "increase_jump_speed p =
     (if jump_speed_in_blocks_per_second p \<le> MAX_JUMP_SPEED_IN_BLOCKS_PER_SECOND
      then p\<lparr>jump_speed_in_blocks_per_second := jump_speed_in_blocks_per_second p + 5\<rparr>
      else p)"

definition decrease_jump_speed :: "player \<Rightarrow> player" where
  "decrease_jump_speed p =
     (if jump_speed_in_blocks_per_second p > MIN_JUMP_SPEED_IN_BLOCKS_PER_SECOND
      then p\<lparr>jump_speed_in_blocks_per_second := jump_speed_in_blocks_per_second p - 5\<rparr>
      else p)"

text \<open>
  An \<^verbatim>\<open>assert\<close> that fails raises \<^verbatim>\<open>AssertionError\<close>; the attributes keep the values
  they had when it was raised. A method that can raise returns its outcome together with
  the player as the call leaves it.
\<close>

datatype error = AssertionError

definition slow_walking_speed :: "player \<Rightarrow> (error + unit) \<times> player" where
  "slow_walking_speed p =
     (if \<not> walking_speed_in_blocks_per_second p = 5 then (Inl AssertionError, p)
      else
        (let p' = p\<lparr>walking_speed_in_blocks_per_second :=
                      walking_speed_in_blocks_per_second p / 3\<rparr>
         in if \<not> walking_speed_in_blocks_per_second p' = 5 / 3 then (Inl AssertionError, p')
            else (Inr (), p')))"

definition reset_walking_speed :: "player \<Rightarrow> player" where
  "reset_walking_speed p = p\<lparr>walking_speed_in_blocks_per_second := 5\<rparr>"

definition start_sprinting :: "player \<Rightarrow> player" where
  "start_sprinting p =
     p\<lparr>walking_speed_in_blocks_per_second := walking_speed_in_blocks_per_second p * 2\<rparr>"

subsection \<open>Sight adjustment\<close>

definition adjust_sight :: "int \<Rightarrow> int \<Rightarrow> player \<Rightarrow> player" where
  "adjust_sight dx dy p =
     (let (x, y) = rotation_in_degrees p;
          m = 0.15;
          x = real_of_int dx * m + x;
          y = real_of_int dy * m + y;
          y = py_max (- 90) (py_min 90 y)
      in p\<lparr>rotation_in_degrees := (x, y)\<rparr>)"

subsection \<open>The per-tick update\<close>

definition current_speed :: "player \<Rightarrow> real" where
  "current_speed p =
     (if flying p then FLYING_SPEED_IN_BLOCKS_PER_SECOND
      else walking_speed_in_blocks_per_second p)"

text \<open>
  The collision checker is the caller's function from a candidate position and the
  player's height to the adjusted position.
\<close>

definition update ::
  "real \<Rightarrow> (real \<times> real \<times> real \<Rightarrow> int \<Rightarrow> real \<times> real \<times> real) \<Rightarrow> player \<Rightarrow> player" where
  "update delta_time_in_seconds collision_checker p =
     (let speed = current_speed p;
          d = delta_time_in_seconds * speed;
          (dx, dy, dz) = get_motion_vector p;
          (dx, dy, dz) = (dx * d, dy * d, dz * d);
          (p, dy) =
            (if \<not> flying p then
               (let p = p\<lparr>vertical_velocity_in_blocks_per_second :=
                            vertical_velocity_in_blocks_per_second p
                            - delta_time_in_seconds * GRAVITY_IN_BLOCKS_PER_SECOND_SQUARED\<rparr>;
                    p = p\<lparr>vertical_velocity_in_blocks_per_second :=
                            py_max (vertical_velocity_in_blocks_per_second p)
                                   (- MAX_FALL_SPEED_IN_BLOCKS_PER_SECOND)\<rparr>
                in (p, dy + vertical_velocity_in_blocks_per_second p * delta_time_in_seconds))
             else
               (let vertical_direction_modifier = 0;
                    vertical_direction_modifier =
                      vertical_direction_modifier + (if ascend p then 1 else 0);
                    vertical_direction_modifier =
                      vertical_direction_modifier - (if descend p then 1 else 0)
                in (p, dy + vertical_direction_modifier * delta_time_in_seconds
                            * FLYING_SPEED_IN_BLOCKS_PER_SECOND)));
          (x, y, z) = position_in_blocks_from_origin p
      in p\<lparr>position_in_blocks_from_origin :=
              collision_checker (x + dx, y + dy, z + dz) PLAYER_HEIGHT_IN_BLOCKS\<rparr>)"

subsection \<open>World boundaries\<close>

definition keep_player_within_coordinates :: "real \<Rightarrow> real \<Rightarrow> real" where
  "keep_player_within_coordinates dimension boundary_size =
     (if dimension > boundary_size then boundary_size
      else if dimension < - boundary_size then - boundary_size
      else dimension)"

text \<open>
  The constant \<^verbatim>\<open>World.WIDTH_FROM_ORIGIN_IN_BLOCKS\<close> belongs to the module \<^verbatim>\<open>world\<close>;
  it is the first argument here.
\<close>

definition check_player_within_world_boundaries :: "real \<Rightarrow> player \<Rightarrow> player" where
  "check_player_within_world_boundaries WIDTH_FROM_ORIGIN_IN_BLOCKS p =
     (let (x, y, z) = position_in_blocks_from_origin p;
          x = keep_player_within_coordinates x WIDTH_FROM_ORIGIN_IN_BLOCKS;
          z = keep_player_within_coordinates z WIDTH_FROM_ORIGIN_IN_BLOCKS
      in p\<lparr>position_in_blocks_from_origin := (x, y, z)\<rparr>)"

section \<open>Sequences of calls\<close>

text \<open>
  A caller's sequence of jump-speed calls, run from left to right on a player.
\<close>

datatype jump_speed_call = IncreaseJumpSpeed | DecreaseJumpSpeed

primrec call_jump_speed :: "jump_speed_call \<Rightarrow> player \<Rightarrow> player" where
  "call_jump_speed IncreaseJumpSpeed p = increase_jump_speed p"
| "call_jump_speed DecreaseJumpSpeed p = decrease_jump_speed p"

primrec run_jump_speed_calls :: "jump_speed_call list \<Rightarrow> player \<Rightarrow> player" where
  "run_jump_speed_calls [] p = p"
| "run_jump_speed_calls (c # cs) p = run_jump_speed_calls cs (call_jump_speed c p)"

text \<open>
  A caller's sequence of walking-speed calls. A call of \<^verbatim>\<open>slow_walking_speed\<close> that
  raises leaves the player as it was at the raise, and the sequence goes on from there.
\<close>

datatype speed_call =
  IncreaseWalkSpeed | DecreaseWalkSpeed | StartSprinting | SlowWalkingSpeed | ResetWalkingSpeed

primrec call_speed :: "speed_call \<Rightarrow> player \<Rightarrow> player" where
  "call_speed IncreaseWalkSpeed p = increase_walk_speed p"
| "call_speed DecreaseWalkSpeed p = decrease_walk_speed p"
| "call_speed StartSprinting p = start_sprinting p"
| "call_speed SlowWalkingSpeed p = snd (slow_walking_speed p)"
| "call_speed ResetWalkingSpeed p = reset_walking_speed p"

primrec run_speed_calls :: "speed_call list \<Rightarrow> player \<Rightarrow> player" where
  "run_speed_calls [] p = p"
| "run_speed_calls (c # cs) p = run_speed_calls cs (call_speed c p)"

text \<open>
  The walking speeds of the ladder: the positive multiples of the increment 5. Used in
  proofs only.
\<close>

definition on_ladder :: "player \<Rightarrow> bool" where
  "on_ladder p = (\<exists>k::nat. 1 \<le> k \<and> walking_speed_in_blocks_per_second p = 5 * real k)"

section \<open>Constants and builtins\<close>

lemma py_max_eq: "py_max a b = max a b"
  by (simp add: py_max_def max_def)

lemma py_min_eq: "py_min a b = min a b"
  by (simp add: py_min_def min_def)

lemma INITIAL_JUMP_SPEED_value: "INITIAL_JUMP_SPEED_IN_BLOCKS_PER_SECOND = 6"
proof -
  have lo: "6 \<le> sqrt 40" by (rule real_le_rsqrt) simp
  have hi: "sqrt 40 < 7" by (rule real_less_lsqrt) simp_all
  have "\<lfloor>sqrt 40\<rfloor> = 6" using lo hi by (simp add: floor_eq_iff)
  then show ?thesis
    by (simp add: INITIAL_JUMP_SPEED_IN_BLOCKS_PER_SECOND_def py_int_def
        GRAVITY_IN_BLOCKS_PER_SECOND_SQUARED_def MAX_JUMP_HEIGHT_IN_BLOCKS_def)
qed

lemma MAX_JUMP_SPEED_value: "MAX_JUMP_SPEED_IN_BLOCKS_PER_SECOND = 16"
  by (simp add: MAX_JUMP_SPEED_IN_BLOCKS_PER_SECOND_def INITIAL_JUMP_SPEED_value)

lemma MIN_JUMP_SPEED_value: "MIN_JUMP_SPEED_IN_BLOCKS_PER_SECOND = 6"
  by (simp add: MIN_JUMP_SPEED_IN_BLOCKS_PER_SECOND_def INITIAL_JUMP_SPEED_value)

section \<open>The motion vector\<close>

text \<open>
  C1 (as amended): for every rotation and every strafe vector other than \<open>(0, 0)\<close>, the
  motion vector of a player that is not flying is \<open>(cos x_angle, 0, sin x_angle)\<close> with
  \<open>x_angle = radians (yaw + degrees (atan2 strafe[0] strafe[1]))\<close>: the forward/back
  component is the first argument of \<open>atan2\<close> and the lateral component the second.
\<close>

theorem get_motion_vector_grounded:
  assumes "\<not> flying p" and "strafe_unit_vector p \<noteq> (0, 0)"
  shows "get_motion_vector p =
           (cos (radians (fst (rotation_in_degrees p)
                            + degrees (atan2 (real_of_int (fst (strafe_unit_vector p)))
                                             (real_of_int (snd (strafe_unit_vector p)))))),
            0,
            sin (radians (fst (rotation_in_degrees p)
                            + degrees (atan2 (real_of_int (fst (strafe_unit_vector p)))
                                             (real_of_int (snd (strafe_unit_vector p)))))))"
  using assms
  by (auto simp: get_motion_vector_def Let_def split: prod.splits)

text \<open>
  C1 at the new player moving forward (strafe \<open>(-1, 0)\<close>, yaw 0): the motion vector is
  \<open>(0, 0, -1)\<close>.
\<close>

theorem get_motion_vector_grounded_witness:
  "\<not> flying (Player_init\<lparr>strafe_unit_vector := (- 1, 0)\<rparr>)
   \<and> strafe_unit_vector (Player_init\<lparr>strafe_unit_vector := (- 1, 0)\<rparr>) \<noteq> (0, 0)
   \<and> get_motion_vector (Player_init\<lparr>strafe_unit_vector := (- 1, 0)\<rparr>) = (0, 0, - 1)"
proof -
  have a: "\<not> flying (Player_init\<lparr>strafe_unit_vector := (- 1, 0)\<rparr>)"
    by (simp add: Player_init_def)
  have b: "strafe_unit_vector (Player_init\<lparr>strafe_unit_vector := (- 1, 0)\<rparr>) \<noteq> (0, 0)"
    by simp
  have r: "rotation_in_degrees (Player_init\<lparr>strafe_unit_vector := (- 1, 0)\<rparr>) = (0, 0)"
    by (simp add: Player_init_def)
  show ?thesis
    using a b get_motion_vector_grounded [OF a b]
    by (simp add: r atan2_def degrees_def radians_def)
qed

text \<open>
  C1 as stated, with the lateral component as the first argument of \<open>atan2\<close>, fails at
  the new player moving forward: the code returns \<open>(0, 0, -1)\<close>, the stated formula
  gives \<open>(-1, 0, 0)\<close>.
\<close>

theorem get_motion_vector_argument_order_counterexample:
  "\<not> flying (Player_init\<lparr>strafe_unit_vector := (- 1, 0)\<rparr>)
   \<and> strafe_unit_vector (Player_init\<lparr>strafe_unit_vector := (- 1, 0)\<rparr>) \<noteq> (0, 0)
   \<and> get_motion_vector (Player_init\<lparr>strafe_unit_vector := (- 1, 0)\<rparr>) = (0, 0, - 1)
   \<and> (cos (radians (fst (rotation_in_degrees (Player_init\<lparr>strafe_unit_vector := (- 1, 0)\<rparr>))
         + degrees (atan2
             (real_of_int (snd (strafe_unit_vector (Player_init\<lparr>strafe_unit_vector := (- 1, 0)\<rparr>))))
             (real_of_int (fst (strafe_unit_vector (Player_init\<lparr>strafe_unit_vector := (- 1, 0)\<rparr>))))))),
       0,
       sin (radians (fst (rotation_in_degrees (Player_init\<lparr>strafe_unit_vector := (- 1, 0)\<rparr>))
         + degrees (atan2
             (real_of_int (snd (strafe_unit_vector (Player_init\<lparr>strafe_unit_vector := (- 1, 0)\<rparr>))))
             (real_of_int (fst (strafe_unit_vector (Player_init\<lparr>strafe_unit_vector := (- 1, 0)\<rparr>))))))))
     = (- 1, 0, 0)
   \<and> get_motion_vector (Player_init\<lparr>strafe_unit_vector := (- 1, 0)\<rparr>) \<noteq>
       (cos (radians (fst (rotation_in_degrees (Player_init\<lparr>strafe_unit_vector := (- 1, 0)\<rparr>))
         + degrees (atan2
             (real_of_int (snd (strafe_unit_vector (Player_init\<lparr>strafe_unit_vector := (- 1, 0)\<rparr>))))
             (real_of_int (fst (strafe_unit_vector (Player_init\<lparr>strafe_unit_vector := (- 1, 0)\<rparr>))))))),
        0,
        sin (radians (fst (rotation_in_degrees (Player_init\<lparr>strafe_unit_vector := (- 1, 0)\<rparr>))
         + degrees (atan2
             (real_of_int (snd (strafe_unit_vector (Player_init\<lparr>strafe_unit_vector := (- 1, 0)\<rparr>))))
             (real_of_int (fst (strafe_unit_vector (Player_init\<lparr>strafe_unit_vector := (- 1, 0)\<rparr>))))))))"
  by (simp add: get_motion_vector_def Player_init_def atan2_def degrees_def radians_def Let_def)

text \<open>
  Walking forward on the ground follows the line of sight of a level look: with strafe
  \<open>(-1, 0)\<close> the motion vector is the sight vector at pitch 0, whatever the yaw.
\<close>

lemma forward_motion_follows_sight:
  assumes "\<not> flying p" and "strafe_unit_vector p = (- 1, 0)"
    and "rotation_in_degrees p = (yaw, 0)"
  shows "get_motion_vector p = get_sight_vector p"
proof -
  have "degrees (atan2 (- 1) 0) = - 90"
    by (simp add: atan2_def degrees_def)
  then show ?thesis
    using assms by (simp add: get_motion_vector_def get_sight_vector_def Let_def radians_def)
qed

section \<open>Gravity\<close>

text \<open>
  C2: for every player that is not flying and every time step (so for every positive
  one), the vertical velocity after \<^verbatim>\<open>update\<close> is the larger of the old velocity minus
  the time step times the gravity and minus the maximal fall speed; so it is never below
  minus the maximal fall speed, which is 50.
\<close>

theorem update_gravity:
  assumes "\<not> flying p"
  shows "vertical_velocity_in_blocks_per_second (update delta_time_in_seconds collision_checker p)
         = max (vertical_velocity_in_blocks_per_second p
                  - delta_time_in_seconds * GRAVITY_IN_BLOCKS_PER_SECOND_SQUARED)
               (- MAX_FALL_SPEED_IN_BLOCKS_PER_SECOND)
       \<and> - MAX_FALL_SPEED_IN_BLOCKS_PER_SECOND
           \<le> vertical_velocity_in_blocks_per_second
                (update delta_time_in_seconds collision_checker p)
       \<and> MAX_FALL_SPEED_IN_BLOCKS_PER_SECOND = 50"
  using assms
  by (simp add: update_def Let_def py_max_eq MAX_FALL_SPEED_IN_BLOCKS_PER_SECOND_def
      split: prod.splits)

text \<open>
  C2 at the new player: after one second the velocity is \<open>-20\<close>, after three seconds
  in one step it is held at \<open>-50\<close>.
\<close>

theorem update_gravity_witness:
  "\<not> flying Player_init
   \<and> vertical_velocity_in_blocks_per_second
       (update 1 (\<lambda>position height. position) Player_init) = - 20
   \<and> vertical_velocity_in_blocks_per_second
       (update 3 (\<lambda>position height. position) Player_init) = - 50"
proof -
  have h: "\<not> flying Player_init"
    by (simp add: Player_init_def)
  have v: "vertical_velocity_in_blocks_per_second Player_init = 0"
    by (simp add: Player_init_def)
  show ?thesis
    using h update_gravity [OF h, of 1 "\<lambda>position height. position"]
      update_gravity [OF h, of 3 "\<lambda>position height. position"]
    by (simp add: v GRAVITY_IN_BLOCKS_PER_SECOND_SQUARED_def)
qed

section \<open>The jump-speed ladder\<close>

lemma call_jump_speed_ladder:
  "jump_speed_in_blocks_per_second p \<in> {6, 11, 16, 21}
   \<Longrightarrow> jump_speed_in_blocks_per_second (call_jump_speed c p) \<in> {6, 11, 16, 21}"
  by (cases c)
     (auto simp: increase_jump_speed_def decrease_jump_speed_def
        MAX_JUMP_SPEED_value MIN_JUMP_SPEED_value)

lemma run_jump_speed_calls_ladder:
  "jump_speed_in_blocks_per_second p \<in> {6, 11, 16, 21}
   \<Longrightarrow> jump_speed_in_blocks_per_second (run_jump_speed_calls cs p) \<in> {6, 11, 16, 21}"
proof (induction cs arbitrary: p)
  case Nil
  then show ?case by simp
next
  case (Cons c cs)
  from Cons.prems
  have "jump_speed_in_blocks_per_second (call_jump_speed c p) \<in> {6, 11, 16, 21}"
    by (rule call_jump_speed_ladder)
  then show ?case using Cons.IH by simp
qed

text \<open>
  C3 (as amended): after every sequence of \<^verbatim>\<open>increase_jump_speed\<close> and
  \<^verbatim>\<open>decrease_jump_speed\<close> calls on a new player (the empty sequence included), the
  jump speed is one of 6, 11, 16, 21: it is at least the minimal jump speed 6 and at
  most the maximal jump speed 16 plus one step of 5.
\<close>

theorem jump_speed_bounds:
  "jump_speed_in_blocks_per_second (run_jump_speed_calls cs Player_init) \<in> {6, 11, 16, 21}
   \<and> MIN_JUMP_SPEED_IN_BLOCKS_PER_SECOND
       \<le> jump_speed_in_blocks_per_second (run_jump_speed_calls cs Player_init)
   \<and> jump_speed_in_blocks_per_second (run_jump_speed_calls cs Player_init)
       \<le> MAX_JUMP_SPEED_IN_BLOCKS_PER_SECOND + 5
   \<and> MIN_JUMP_SPEED_IN_BLOCKS_PER_SECOND = 6
   \<and> MAX_JUMP_SPEED_IN_BLOCKS_PER_SECOND = 16"
proof -
  have "jump_speed_in_blocks_per_second Player_init \<in> {6, 11, 16, 21}"
    by (simp add: Player_init_def INITIAL_JUMP_SPEED_value)
  then have
    "jump_speed_in_blocks_per_second (run_jump_speed_calls cs Player_init) \<in> {6, 11, 16, 21}"
    by (rule run_jump_speed_calls_ladder)
  then show ?thesis
    by (auto simp: MAX_JUMP_SPEED_value MIN_JUMP_SPEED_value)
qed

text \<open>
  C3 at four increases followed by one decrease: the jump speed is 16.
\<close>

theorem jump_speed_bounds_witness:
  "jump_speed_in_blocks_per_second
     (run_jump_speed_calls
        [IncreaseJumpSpeed, IncreaseJumpSpeed, IncreaseJumpSpeed, IncreaseJumpSpeed,
         DecreaseJumpSpeed] Player_init) = 16
   \<and> MIN_JUMP_SPEED_IN_BLOCKS_PER_SECOND
       \<le> jump_speed_in_blocks_per_second
            (run_jump_speed_calls
               [IncreaseJumpSpeed, IncreaseJumpSpeed, IncreaseJumpSpeed, IncreaseJumpSpeed,
                DecreaseJumpSpeed] Player_init)
   \<and> jump_speed_in_blocks_per_second
       (run_jump_speed_calls
          [IncreaseJumpSpeed, IncreaseJumpSpeed, IncreaseJumpSpeed, IncreaseJumpSpeed,
           DecreaseJumpSpeed] Player_init)
       \<le> MAX_JUMP_SPEED_IN_BLOCKS_PER_SECOND + 5"
proof -
  have v: "jump_speed_in_blocks_per_second
     (run_jump_speed_calls
        [IncreaseJumpSpeed, IncreaseJumpSpeed, IncreaseJumpSpeed, IncreaseJumpSpeed,
         DecreaseJumpSpeed] Player_init) = 16"
    by (simp add: increase_jump_speed_def decrease_jump_speed_def Player_init_def
        MAX_JUMP_SPEED_value MIN_JUMP_SPEED_value INITIAL_JUMP_SPEED_value)
  show ?thesis
    using v jump_speed_bounds
      [of "[IncreaseJumpSpeed, IncreaseJumpSpeed, IncreaseJumpSpeed, IncreaseJumpSpeed,
            DecreaseJumpSpeed]"]
    by simp
qed

text \<open>
  C3 as stated, with the maximal jump speed 16 as the upper bound, fails after three
  increases on a new player: the jump speed goes 6, 11, 16, 21, since the guard lets a
  jump speed equal to the maximum take one more step.
\<close>

theorem jump_speed_invariant_counterexample:
  "jump_speed_in_blocks_per_second
     (run_jump_speed_calls [IncreaseJumpSpeed, IncreaseJumpSpeed, IncreaseJumpSpeed] Player_init)
     = 21
   \<and> MAX_JUMP_SPEED_IN_BLOCKS_PER_SECOND = 16
   \<and> \<not> jump_speed_in_blocks_per_second
         (run_jump_speed_calls [IncreaseJumpSpeed, IncreaseJumpSpeed, IncreaseJumpSpeed]
            Player_init)
       \<le> MAX_JUMP_SPEED_IN_BLOCKS_PER_SECOND"
  by (simp add: increase_jump_speed_def Player_init_def MAX_JUMP_SPEED_value
      INITIAL_JUMP_SPEED_value)

section \<open>The walking-speed ladder\<close>

lemma increase_walk_speed_funpow:
  "walking_speed_in_blocks_per_second p = 5
   \<Longrightarrow> walking_speed_in_blocks_per_second ((increase_walk_speed ^^ n) p)
       = min (5 + 5 * real n) 20"
proof (induction n)
  case 0
  then show ?case by simp
next
  case (Suc n)
  then show ?case
    by (auto simp: increase_walk_speed_def MAX_SPEED_IN_BLOCKS_PER_SECOND_def
        WALK_SPEED_IN_BLOCKS_PER_SECOND_def min_def)
qed

text \<open>
  C4: from a walking speed of 5, one, two and three calls of \<^verbatim>\<open>increase_walk_speed\<close>
  give 10, 15 and 20, and any number of calls from three on gives 20.
\<close>

theorem increase_walk_speed_sequence:
  assumes "walking_speed_in_blocks_per_second p = 5"
  shows "walking_speed_in_blocks_per_second (increase_walk_speed p) = 10
       \<and> walking_speed_in_blocks_per_second (increase_walk_speed (increase_walk_speed p)) = 15
       \<and> walking_speed_in_blocks_per_second
           (increase_walk_speed (increase_walk_speed (increase_walk_speed p))) = 20
       \<and> (\<forall>n\<ge>3. walking_speed_in_blocks_per_second ((increase_walk_speed ^^ n) p) = 20)"
proof -
  have a: "\<And>n. walking_speed_in_blocks_per_second ((increase_walk_speed ^^ n) p)
                = min (5 + 5 * real n) 20"
    using assms by (rule increase_walk_speed_funpow)
  have "\<forall>n\<ge>3. walking_speed_in_blocks_per_second ((increase_walk_speed ^^ n) p) = 20"
    by (auto simp: a min_def)
  moreover have "walking_speed_in_blocks_per_second (increase_walk_speed p) = 10"
    using a [of 1] by simp
  moreover have
    "walking_speed_in_blocks_per_second (increase_walk_speed (increase_walk_speed p)) = 15"
    using a [of 2] by (simp add: numeral_2_eq_2)
  moreover have "walking_speed_in_blocks_per_second
           (increase_walk_speed (increase_walk_speed (increase_walk_speed p))) = 20"
    using a [of 3] by (simp add: numeral_3_eq_3)
  ultimately show ?thesis by blast
qed

text \<open>
  C4 at the new player, whose walking speed is 5: the speeds are 10, 15, 20, and 20
  after seven calls.
\<close>

theorem increase_walk_speed_sequence_witness:
  "walking_speed_in_blocks_per_second Player_init = 5
   \<and> walking_speed_in_blocks_per_second (increase_walk_speed Player_init) = 10
   \<and> walking_speed_in_blocks_per_second (increase_walk_speed (increase_walk_speed Player_init))
     = 15
   \<and> walking_speed_in_blocks_per_second
       (increase_walk_speed (increase_walk_speed (increase_walk_speed Player_init))) = 20
   \<and> walking_speed_in_blocks_per_second ((increase_walk_speed ^^ 7) Player_init) = 20"
proof -
  have h: "walking_speed_in_blocks_per_second Player_init = 5"
    by (simp add: Player_init_def WALK_SPEED_IN_BLOCKS_PER_SECOND_def)
  show ?thesis
    using h increase_walk_speed_sequence [OF h] by simp
qed

lemma on_ladder_init: "on_ladder Player_init"
  unfolding on_ladder_def
  by (rule exI [of _ 1]) (simp add: Player_init_def WALK_SPEED_IN_BLOCKS_PER_SECOND_def)

lemma on_ladder_min:
  "on_ladder p \<Longrightarrow> MIN_SPEED_IN_BLOCKS_PER_SECOND \<le> walking_speed_in_blocks_per_second p"
  by (auto simp: on_ladder_def MIN_SPEED_IN_BLOCKS_PER_SECOND_def)

lemma on_ladder_increase: "on_ladder p \<Longrightarrow> on_ladder (increase_walk_speed p)"
proof -
  assume l: "on_ladder p"
  then obtain k :: nat where k: "1 \<le> k" "walking_speed_in_blocks_per_second p = 5 * real k"
    by (auto simp: on_ladder_def)
  have "walking_speed_in_blocks_per_second p + 5 = 5 * real (Suc k)"
    using k by simp
  then have "\<exists>j::nat. 1 \<le> j \<and> walking_speed_in_blocks_per_second p + 5 = 5 * real j"
    by (intro exI [of _ "Suc k"]) simp
  then show ?thesis
    using l
    by (simp add: on_ladder_def increase_walk_speed_def WALK_SPEED_IN_BLOCKS_PER_SECOND_def)
qed

lemma on_ladder_decrease: "on_ladder p \<Longrightarrow> on_ladder (decrease_walk_speed p)"
proof -
  assume l: "on_ladder p"
  then obtain k :: nat where k: "1 \<le> k" "walking_speed_in_blocks_per_second p = 5 * real k"
    by (auto simp: on_ladder_def)
  show ?thesis
  proof (cases "walking_speed_in_blocks_per_second p > MIN_SPEED_IN_BLOCKS_PER_SECOND")
    case True
    then have "2 \<le> k" using k by (simp add: MIN_SPEED_IN_BLOCKS_PER_SECOND_def)
    then have "1 \<le> k - 1 \<and> walking_speed_in_blocks_per_second p - 5 = 5 * real (k - 1)"
      using k by (simp add: of_nat_diff)
    then have "\<exists>j::nat. 1 \<le> j \<and> walking_speed_in_blocks_per_second p - 5 = 5 * real j"
      by blast
    then show ?thesis
      using True
      by (simp add: on_ladder_def decrease_walk_speed_def WALK_SPEED_IN_BLOCKS_PER_SECOND_def)
  next
    case False
    then show ?thesis using l by (simp add: decrease_walk_speed_def)
  qed
qed

lemma on_ladder_sprint: "on_ladder p \<Longrightarrow> on_ladder (start_sprinting p)"
proof -
  assume "on_ladder p"
  then obtain k :: nat where k: "1 \<le> k" "walking_speed_in_blocks_per_second p = 5 * real k"
    by (auto simp: on_ladder_def)
  then have "1 \<le> 2 * k \<and> walking_speed_in_blocks_per_second p * 2 = 5 * real (2 * k)"
    by simp
  then have "\<exists>j::nat. 1 \<le> j \<and> walking_speed_in_blocks_per_second p * 2 = 5 * real j"
    by blast
  then show ?thesis by (simp add: on_ladder_def start_sprinting_def)
qed

lemma on_ladder_reset: "on_ladder (reset_walking_speed p)"
  unfolding on_ladder_def by (rule exI [of _ 1]) (simp add: reset_walking_speed_def)

lemma on_ladder_call:
  "on_ladder p \<Longrightarrow> c \<noteq> SlowWalkingSpeed \<Longrightarrow> on_ladder (call_speed c p)"
  by (cases c)
     (simp_all add: on_ladder_increase on_ladder_decrease on_ladder_sprint on_ladder_reset)

lemma on_ladder_run:
  "on_ladder p \<Longrightarrow> SlowWalkingSpeed \<notin> set cs \<Longrightarrow> on_ladder (run_speed_calls cs p)"
proof (induction cs arbitrary: p)
  case Nil
  then show ?case by simp
next
  case (Cons c cs)
  from Cons.prems have "c \<noteq> SlowWalkingSpeed" by auto
  with Cons.prems have "on_ladder (call_speed c p)" by (simp add: on_ladder_call)
  with Cons show ?case by simp
qed

text \<open>
  C5 (as amended): in every state that a new player reaches by calls of
  \<^verbatim>\<open>increase_walk_speed\<close>, \<^verbatim>\<open>decrease_walk_speed\<close>, \<^verbatim>\<open>start_sprinting\<close> and
  \<^verbatim>\<open>reset_walking_speed\<close> (no call of \<^verbatim>\<open>slow_walking_speed\<close>), a call of
  \<^verbatim>\<open>decrease_walk_speed\<close> leaves the walking speed at or above the minimal speed 5: it
  subtracts the increment 5 only when the walking speed is above the minimal speed.
\<close>

theorem decrease_walk_speed_floor:
  assumes "SlowWalkingSpeed \<notin> set cs"
  shows "MIN_SPEED_IN_BLOCKS_PER_SECOND
           \<le> walking_speed_in_blocks_per_second
                (decrease_walk_speed (run_speed_calls cs Player_init))
       \<and> walking_speed_in_blocks_per_second (decrease_walk_speed (run_speed_calls cs Player_init))
         = (if walking_speed_in_blocks_per_second (run_speed_calls cs Player_init)
                 > MIN_SPEED_IN_BLOCKS_PER_SECOND
            then walking_speed_in_blocks_per_second (run_speed_calls cs Player_init) - 5
            else walking_speed_in_blocks_per_second (run_speed_calls cs Player_init))
       \<and> MIN_SPEED_IN_BLOCKS_PER_SECOND = 5"
proof -
  have "on_ladder (run_speed_calls cs Player_init)"
    using on_ladder_init assms by (rule on_ladder_run)
  then have "on_ladder (decrease_walk_speed (run_speed_calls cs Player_init))"
    by (rule on_ladder_decrease)
  then have "MIN_SPEED_IN_BLOCKS_PER_SECOND
           \<le> walking_speed_in_blocks_per_second
                (decrease_walk_speed (run_speed_calls cs Player_init))"
    by (rule on_ladder_min)
  then show ?thesis
    by (simp add: decrease_walk_speed_def WALK_SPEED_IN_BLOCKS_PER_SECOND_def
        MIN_SPEED_IN_BLOCKS_PER_SECOND_def)
qed

text \<open>
  C5 after an increase, a sprint and a decrease (5, 10, 20, 15): one more decrease gives
  10.
\<close>

theorem decrease_walk_speed_floor_witness:
  "SlowWalkingSpeed \<notin> set [IncreaseWalkSpeed, StartSprinting, DecreaseWalkSpeed]
   \<and> walking_speed_in_blocks_per_second
       (run_speed_calls [IncreaseWalkSpeed, StartSprinting, DecreaseWalkSpeed] Player_init) = 15
   \<and> walking_speed_in_blocks_per_second
       (decrease_walk_speed
          (run_speed_calls [IncreaseWalkSpeed, StartSprinting, DecreaseWalkSpeed] Player_init))
     = 10
   \<and> MIN_SPEED_IN_BLOCKS_PER_SECOND
       \<le> walking_speed_in_blocks_per_second
            (decrease_walk_speed
               (run_speed_calls [IncreaseWalkSpeed, StartSprinting, DecreaseWalkSpeed]
                  Player_init))"
proof -
  have h: "SlowWalkingSpeed \<notin> set [IncreaseWalkSpeed, StartSprinting, DecreaseWalkSpeed]"
    by simp
  have v: "walking_speed_in_blocks_per_second
       (run_speed_calls [IncreaseWalkSpeed, StartSprinting, DecreaseWalkSpeed] Player_init) = 15"
    by (simp add: increase_walk_speed_def start_sprinting_def decrease_walk_speed_def
        Player_init_def WALK_SPEED_IN_BLOCKS_PER_SECOND_def MAX_SPEED_IN_BLOCKS_PER_SECOND_def
        MIN_SPEED_IN_BLOCKS_PER_SECOND_def)
  show ?thesis
    using h v decrease_walk_speed_floor [OF h]
    by (simp add: MIN_SPEED_IN_BLOCKS_PER_SECOND_def)
qed

text \<open>
  C5 as stated, with \<^verbatim>\<open>slow_walking_speed\<close> among the calls, fails on a new player
  after \<^verbatim>\<open>slow_walking_speed\<close> and \<^verbatim>\<open>increase_walk_speed\<close>: the walking speed is
  \<open>5/3 + 5\<close>, above the minimal speed, and \<^verbatim>\<open>decrease_walk_speed\<close> takes it to
  \<open>5/3\<close>, below the minimal speed.
\<close>

theorem decrease_walk_speed_floor_counterexample:
  "MIN_SPEED_IN_BLOCKS_PER_SECOND
     < walking_speed_in_blocks_per_second
         (run_speed_calls [SlowWalkingSpeed, IncreaseWalkSpeed] Player_init)
   \<and> walking_speed_in_blocks_per_second
       (decrease_walk_speed (run_speed_calls [SlowWalkingSpeed, IncreaseWalkSpeed] Player_init))
     < MIN_SPEED_IN_BLOCKS_PER_SECOND
   \<and> walking_speed_in_blocks_per_second
       (decrease_walk_speed (run_speed_calls [SlowWalkingSpeed, IncreaseWalkSpeed] Player_init))
     = 5 / 3"
  by (simp add: slow_walking_speed_def increase_walk_speed_def decrease_walk_speed_def
      Player_init_def WALK_SPEED_IN_BLOCKS_PER_SECOND_def MAX_SPEED_IN_BLOCKS_PER_SECOND_def
      MIN_SPEED_IN_BLOCKS_PER_SECOND_def Let_def)

section \<open>Sight adjustment: properties\<close>

text \<open>
  C6 (as amended): from pitch 0, \<^verbatim>\<open>adjust_sight(0, 700)\<close> gives pitch exactly 90, and
  \<^verbatim>\<open>adjust_sight(0, -700)\<close> called from pitch 0 gives pitch exactly \<open>-90\<close>; called
  right after the first call, from pitch 90, it gives \<open>90 - 105 = -15\<close>. The yaw is
  unchanged by these calls, and after any call of \<^verbatim>\<open>adjust_sight\<close> the pitch lies
  between \<open>-90\<close> and 90.
\<close>

theorem adjust_sight_clamp:
  assumes "rotation_in_degrees p = (yaw, 0)"
  shows "rotation_in_degrees (adjust_sight 0 700 p) = (yaw, 90)
       \<and> rotation_in_degrees (adjust_sight 0 (- 700) p) = (yaw, - 90)
       \<and> rotation_in_degrees (adjust_sight 0 (- 700) (adjust_sight 0 700 p)) = (yaw, - 15)
       \<and> - 90 \<le> snd (rotation_in_degrees (adjust_sight dx dy q))
       \<and> snd (rotation_in_degrees (adjust_sight dx dy q)) \<le> 90"
  using assms
  by (simp add: adjust_sight_def py_max_def py_min_def Let_def split: prod.splits)

text \<open>
  C6 at the new player, whose rotation is \<open>(0, 0)\<close>.
\<close>

theorem adjust_sight_clamp_witness:
  "rotation_in_degrees Player_init = (0, 0)
   \<and> rotation_in_degrees (adjust_sight 0 700 Player_init) = (0, 90)
   \<and> rotation_in_degrees (adjust_sight 0 (- 700) Player_init) = (0, - 90)
   \<and> rotation_in_degrees (adjust_sight 0 (- 700) (adjust_sight 0 700 Player_init)) = (0, - 15)"
proof -
  have h: "rotation_in_degrees Player_init = (0, 0)"
    by (simp add: Player_init_def)
  show ?thesis
    using h adjust_sight_clamp [OF h] by simp
qed

text \<open>
  C6 as stated fails on the new player: after \<^verbatim>\<open>adjust_sight(0, 700)\<close> the pitch is
  90, and after \<^verbatim>\<open>adjust_sight(0, -700)\<close> in sequence it is \<open>-15\<close>, not \<open>-90\<close>.
\<close>

theorem adjust_sight_sequence_counterexample:
  "snd (rotation_in_degrees Player_init) = 0
   \<and> snd (rotation_in_degrees (adjust_sight 0 700 Player_init)) = 90
   \<and> snd (rotation_in_degrees (adjust_sight 0 (- 700) (adjust_sight 0 700 Player_init))) = - 15
   \<and> snd (rotation_in_degrees (adjust_sight 0 (- 700) (adjust_sight 0 700 Player_init)))
       \<noteq> - 90"
  by (simp add: adjust_sight_def py_max_def py_min_def Let_def Player_init_def)

section \<open>Slow walking\<close>

text \<open>
  C7: \<^verbatim>\<open>slow_walking_speed\<close> raises \<^verbatim>\<open>AssertionError\<close> exactly when the walking speed
  is not 5 at the call, and then leaves the player unchanged; when the walking speed is
  5 it returns normally and sets the walking speed to \<open>5/3\<close>.
\<close>

theorem slow_walking_speed_assert:
  "(fst (slow_walking_speed p) = Inl AssertionError
      \<longleftrightarrow> walking_speed_in_blocks_per_second p \<noteq> 5)
   \<and> (walking_speed_in_blocks_per_second p \<noteq> 5 \<longrightarrow> snd (slow_walking_speed p) = p)
   \<and> (walking_speed_in_blocks_per_second p = 5
        \<longrightarrow> slow_walking_speed p = (Inr (), p\<lparr>walking_speed_in_blocks_per_second := 5 / 3\<rparr>))"
  by (simp add: slow_walking_speed_def Let_def)

text \<open>
  C7 at the new player (walking speed 5: the call succeeds) and at the new player after
  one \<^verbatim>\<open>increase_walk_speed\<close> (walking speed 10: the call raises and changes nothing).
\<close>

theorem slow_walking_speed_assert_witness:
  "walking_speed_in_blocks_per_second Player_init = 5
   \<and> slow_walking_speed Player_init
     = (Inr (), Player_init\<lparr>walking_speed_in_blocks_per_second := 5 / 3\<rparr>)
   \<and> walking_speed_in_blocks_per_second (increase_walk_speed Player_init) \<noteq> 5
   \<and> slow_walking_speed (increase_walk_speed Player_init)
     = (Inl AssertionError, increase_walk_speed Player_init)"
proof -
  have a: "walking_speed_in_blocks_per_second Player_init = 5"
    by (simp add: Player_init_def WALK_SPEED_IN_BLOCKS_PER_SECOND_def)
  have b: "walking_speed_in_blocks_per_second (increase_walk_speed Player_init) \<noteq> 5"
    by (simp add: increase_walk_speed_def Player_init_def WALK_SPEED_IN_BLOCKS_PER_SECOND_def
        MAX_SPEED_IN_BLOCKS_PER_SECOND_def)
  show ?thesis
    using a b slow_walking_speed_assert [of Player_init]
      slow_walking_speed_assert [of "increase_walk_speed Player_init"]
    by (metis prod.collapse)
qed

section \<open>World boundaries: properties\<close>

text \<open>
  C8: for every position \<open>(x, y, z)\<close> and every half-width \<open>W\<close> of the world (a width,
  so not negative), \<^verbatim>\<open>check_player_within_world_boundaries\<close> keeps \<open>y\<close> and gives,
  for \<open>x\<close> and for \<open>z\<close> separately, the value itself when it lies between \<open>-W\<close> and
  \<open>W\<close>, \<open>W\<close> when it is greater than \<open>W\<close>, and \<open>-W\<close> when it is less than \<open>-W\<close>.
\<close>

theorem check_player_within_world_boundaries_clamp:
  assumes "0 \<le> W" and "position_in_blocks_from_origin p = (x, y, z)"
  shows "case position_in_blocks_from_origin (check_player_within_world_boundaries W p) of
           (x', y', z') \<Rightarrow>
             y' = y
           \<and> (- W \<le> x \<and> x \<le> W \<longrightarrow> x' = x) \<and> (W < x \<longrightarrow> x' = W) \<and> (x < - W \<longrightarrow> x' = - W)
           \<and> (- W \<le> z \<and> z \<le> W \<longrightarrow> z' = z) \<and> (W < z \<longrightarrow> z' = W) \<and> (z < - W \<longrightarrow> z' = - W)"
  using assms
  by (simp add: check_player_within_world_boundaries_def keep_player_within_coordinates_def)

text \<open>
  C8 at half-width 80 and position \<open>(100, 7, -90)\<close>: the clamped position is
  \<open>(80, 7, -80)\<close>.
\<close>

theorem check_player_within_world_boundaries_clamp_witness:
  "(0::real) \<le> 80
   \<and> position_in_blocks_from_origin
       (Player_init\<lparr>position_in_blocks_from_origin := (100, 7, - 90)\<rparr>) = (100, 7, - 90)
   \<and> position_in_blocks_from_origin
       (check_player_within_world_boundaries 80
          (Player_init\<lparr>position_in_blocks_from_origin := (100, 7, - 90)\<rparr>)) = (80, 7, - 80)"
proof -
  have h: "(0::real) \<le> 80" by simp
  have q: "position_in_blocks_from_origin
       (Player_init\<lparr>position_in_blocks_from_origin := (100, 7, - 90)\<rparr>) = (100, 7, - 90)"
    by simp
  show ?thesis
    using h q check_player_within_world_boundaries_clamp [OF h q]
    by (simp split: prod.splits)
qed

section \<open>The frame of the update\<close>

text \<open>
  C9: for every player, every time step and every collision checker, \<^verbatim>\<open>update\<close>
  changes at most the position and the vertical velocity: the rotation, the strafe
  vector, the flying, ascend and descend flags, the walking speed, the jump speed, the
  inventory and the selected block are unchanged, and for a flying player the vertical
  velocity is unchanged too.
\<close>

theorem update_frame:
  "rotation_in_degrees (update dt cc p) = rotation_in_degrees p
   \<and> strafe_unit_vector (update dt cc p) = strafe_unit_vector p
   \<and> flying (update dt cc p) = flying p
   \<and> ascend (update dt cc p) = ascend p
   \<and> descend (update dt cc p) = descend p
   \<and> walking_speed_in_blocks_per_second (update dt cc p) = walking_speed_in_blocks_per_second p
   \<and> jump_speed_in_blocks_per_second (update dt cc p) = jump_speed_in_blocks_per_second p
   \<and> inventory (update dt cc p) = inventory p
   \<and> selected_block (update dt cc p) = selected_block p
   \<and> (flying p \<longrightarrow> vertical_velocity_in_blocks_per_second (update dt cc p)
                     = vertical_velocity_in_blocks_per_second p)
   \<and> update dt cc p
       = p\<lparr>position_in_blocks_from_origin := position_in_blocks_from_origin (update dt cc p),
            vertical_velocity_in_blocks_per_second :=
              vertical_velocity_in_blocks_per_second (update dt cc p)\<rparr>"
  by (simp add: update_def Let_def split: prod.splits)

text \<open>
  C9 at a player flying forward and ascending with vertical velocity 3, a time step of
  one second and a collision checker that returns the candidate position: the position
  becomes \<open>(0, 15, -15)\<close> and nothing else changes.
\<close>

theorem update_frame_witness:
  "flying (Player_init\<lparr>flying := True, ascend := True, strafe_unit_vector := (- 1, 0),
             vertical_velocity_in_blocks_per_second := 3\<rparr>)
   \<and> vertical_velocity_in_blocks_per_second
       (update 1 (\<lambda>position height. position)
          (Player_init\<lparr>flying := True, ascend := True, strafe_unit_vector := (- 1, 0),
             vertical_velocity_in_blocks_per_second := 3\<rparr>)) = 3
   \<and> update 1 (\<lambda>position height. position)
        (Player_init\<lparr>flying := True, ascend := True, strafe_unit_vector := (- 1, 0),
           vertical_velocity_in_blocks_per_second := 3\<rparr>)
     = Player_init\<lparr>flying := True, ascend := True, strafe_unit_vector := (- 1, 0),
         vertical_velocity_in_blocks_per_second := 3,
         position_in_blocks_from_origin := (0, 15, - 15)\<rparr>"
proof -
  have f: "flying (Player_init\<lparr>flying := True, ascend := True, strafe_unit_vector := (- 1, 0),
             vertical_velocity_in_blocks_per_second := 3\<rparr>)"
    by simp
  have u: "update 1 (\<lambda>position height. position)
        (Player_init\<lparr>flying := True, ascend := True, strafe_unit_vector := (- 1, 0),
           vertical_velocity_in_blocks_per_second := 3\<rparr>)
     = Player_init\<lparr>flying := True, ascend := True, strafe_unit_vector := (- 1, 0),
         vertical_velocity_in_blocks_per_second := 3,
         position_in_blocks_from_origin := (0, 15, - 15)\<rparr>"
    by (simp add: update_def get_motion_vector_def Player_init_def atan2_def degrees_def
        radians_def Let_def current_speed_def FLYING_SPEED_IN_BLOCKS_PER_SECOND_def)
  show ?thesis
    using f u update_frame [of 1 "\<lambda>position height. position"
        "Player_init\<lparr>flying := True, ascend := True, strafe_unit_vector := (- 1, 0),
           vertical_velocity_in_blocks_per_second := 3\<rparr>"]
    by simp
qed

section \<open>Idempotence of the boundary clamp\<close>

text \<open>
  C10: \<^verbatim>\<open>keep_player_within_coordinates\<close> is idempotent: for every dimension value and
  every boundary size that is not negative, clamping twice equals clamping once, and the
  result lies between minus the boundary size and the boundary size.
\<close>

theorem keep_player_within_coordinates_idem:
  assumes "0 \<le> boundary_size"
  shows "keep_player_within_coordinates
           (keep_player_within_coordinates d boundary_size) boundary_size
         = keep_player_within_coordinates d boundary_size
       \<and> - boundary_size \<le> keep_player_within_coordinates d boundary_size
       \<and> keep_player_within_coordinates d boundary_size \<le> boundary_size"
  using assms unfolding keep_player_within_coordinates_def by auto

text \<open>
  C10 at boundary size 80 and dimension 100: the first clamp gives 80, and so does the
  second.
\<close>

theorem keep_player_within_coordinates_idem_witness:
  "(0::real) \<le> 80
   \<and> keep_player_within_coordinates (keep_player_within_coordinates 100 80) 80
     = keep_player_within_coordinates 100 80
   \<and> keep_player_within_coordinates 100 80 = 80
   \<and> - 80 \<le> keep_player_within_coordinates 100 80
   \<and> keep_player_within_coordinates 100 80 \<le> 80"
proof -
  have h: "(0::real) \<le> 80" by simp
  have v: "keep_player_within_coordinates 100 80 = 80"
    by (simp add: keep_player_within_coordinates_def)
  show ?thesis
    using h v keep_player_within_coordinates_idem [OF h, of 100] by simp
qed

end
